theory Spec2Isabelle
  imports Complex_Main "HOL-Library.Product_Lexorder"
begin

section \<open>Instances, distances and tour length\<close>

text \<open>
  The solvers of \<^verbatim>\<open>src/algorithms.py\<close> take a parsed instance, a dictionary with the
  keys \<^verbatim>\<open>DIMENSION\<close> and \<^verbatim>\<open>CITIES\<close>. City labels are the integers \<open>1..n\<close>; label \<open>k\<close>
  is stored at list position \<open>k - 1\<close>. Floating-point numbers are modelled by the reals, so
  sums are exact. An exception of the source is a value of \<open>py_error\<close>, and a function that
  can raise returns \<open>py_error + 'a\<close>.
\<close>

datatype py_error = ValueError | IndexError | KeyError | RecursionError

record tsp =
  DIMENSION :: nat
  CITIES :: "(real \<times> real) list"

text \<open>
  Modelled from the spec: the function \<^verbatim>\<open>distance\<close> of the module \<^verbatim>\<open>city\<close>, which is
  imported by \<^verbatim>\<open>algorithms.py\<close> and is not part of the sources. The spec gives it as the
  Euclidean norm between the coordinates of two cities.
\<close>

definition distance :: "real \<times> real \<Rightarrow> real \<times> real \<Rightarrow> real" where
  "distance p q = sqrt ((fst p - fst q)\<^sup>2 + (snd p - snd q)\<^sup>2)"

text \<open>
  The local \<^verbatim>\<open>dist = lambda i, j: distance(tsp["CITIES"][i-1], tsp["CITIES"][j-1])\<close> of
  every solver. Labels are natural numbers here; the model is meant for labels in \<open>1..n\<close>
  on an instance with \<open>n\<close> cities, where no index is out of range.
\<close>

definition dist_of :: "tsp \<Rightarrow> nat \<Rightarrow> nat \<Rightarrow> real" where
  "dist_of tsp i j = distance (CITIES tsp ! (i - 1)) (CITIES tsp ! (j - 1))"

text \<open>
  \<^verbatim>\<open>path_length\<close>: the running total over \<^verbatim>\<open>zip(tour, tour[1:])\<close>, starting at 0.
\<close>

definition path_length :: "tsp \<Rightarrow> nat list \<Rightarrow> real" where
  "path_length tsp tour =
     foldl (\<lambda>total (u, v). total + distance (CITIES tsp ! (u - 1)) (CITIES tsp ! (v - 1)))
       0 (zip tour (tl tour))"

text \<open>An instance is valid when it has at least one city and as many coordinates as cities.\<close>

definition valid_instance :: "tsp \<Rightarrow> bool" where
  "valid_instance tsp = (1 \<le> DIMENSION tsp \<and> length (CITIES tsp) = DIMENSION tsp)"

text \<open>
  A tour over \<open>n\<close> cities is valid when it has \<open>n + 1\<close> entries, starts and ends at city 1,
  and its first \<open>n\<close> entries are a permutation of \<open>1..n\<close>.
\<close>

definition valid_tour :: "nat \<Rightarrow> nat list \<Rightarrow> bool" where
  "valid_tour n tour =
     (length tour = n + 1 \<and> hd tour = 1 \<and> last tour = 1 \<and>
      distinct (butlast tour) \<and> set (butlast tour) = {1..n})"

text \<open>
  The distance matrix of the local searches, a NumPy array read as
  \<^verbatim>\<open>dist_matrix[a-1, b-1]\<close>: a list of rows.
\<close>

type_synonym matrix = "real list list"

definition dm_at :: "matrix \<Rightarrow> nat \<Rightarrow> nat \<Rightarrow> real" where
  "dm_at m r c = m ! r ! c"

section \<open>2-opt local search\<close>

text \<open>
  The candidate of the pair \<open>(i, j)\<close>: \<^verbatim>\<open>tour[:i] + tour[i:j+1][::-1] + tour[j+1:]\<close>.
\<close>

definition two_opt_move :: "nat list \<Rightarrow> nat \<Rightarrow> nat \<Rightarrow> nat list" where
  "two_opt_move tour i j = take i tour @ rev (drop i (take (j + 1) tour)) @ drop (j + 1) tour"

text \<open>
  The body of the inner \<^verbatim>\<open>for j\<close> loop, on the state
  \<open>(best_tour, best_length, improved)\<close>. The source reads \<^verbatim>\<open>tour\<close>, the argument of
  \<^verbatim>\<open>two_opt\<close>, which no statement of the function assigns again.
\<close>

definition two_opt_body ::
  "tsp \<Rightarrow> nat list \<Rightarrow> matrix \<Rightarrow> nat \<Rightarrow> nat \<Rightarrow> nat list \<times> real \<times> bool \<Rightarrow> nat list \<times> real \<times> bool" where
  "two_opt_body tsp tour dist_matrix i j st =
     (let old_dist = dm_at dist_matrix (tour ! (i - 1) - 1) (tour ! i - 1)
                   + dm_at dist_matrix (tour ! j - 1) (tour ! (j + 1) - 1);
          new_dist = dm_at dist_matrix (tour ! (i - 1) - 1) (tour ! j - 1)
                   + dm_at dist_matrix (tour ! i - 1) (tour ! (j + 1) - 1)
      in if new_dist < old_dist then
           (let new_tour = two_opt_move tour i j;
                new_length = path_length tsp new_tour
            in if new_length < fst (snd st) then (new_tour, new_length, True) else st)
         else st)"

text \<open>
  One pass of \<^verbatim>\<open>for i in range(1, n-2): for j in range(i+2, n)\<close>. For \<open>n < 2\<close> the
  truncated \<open>n - 2\<close> is 0 and the range is empty, as Python's \<^verbatim>\<open>range(1, n-2)\<close> is.
\<close>

definition two_opt_sweep ::
  "tsp \<Rightarrow> nat list \<Rightarrow> matrix \<Rightarrow> nat \<Rightarrow> nat list \<times> real \<times> bool \<Rightarrow> nat list \<times> real \<times> bool" where
  "two_opt_sweep tsp tour dist_matrix n st =
     fold (\<lambda>i. fold (\<lambda>j. two_opt_body tsp tour dist_matrix i j) [i + 2..<n]) [1..<n - 2] st"

text \<open>The pairs the sweep visits, and the length of each pair's candidate.\<close>

definition two_opt_pairs :: "nat \<Rightarrow> (nat \<times> nat) set" where
  "two_opt_pairs n = {(i, j). 1 \<le> i \<and> i < n - 2 \<and> i + 2 \<le> j \<and> j < n}"

definition two_opt_better :: "tsp \<Rightarrow> nat list \<Rightarrow> nat \<Rightarrow> real \<Rightarrow> (nat \<times> nat) set" where
  "two_opt_better tsp tour n b =
     {(i, j). (i, j) \<in> two_opt_pairs n \<and> path_length tsp (two_opt_move tour i j) < b}"

lemma two_opt_body_cases:
  "two_opt_body tsp tour dm i j st = st \<or>
   (two_opt_body tsp tour dm i j st
      = (two_opt_move tour i j, path_length tsp (two_opt_move tour i j), True) \<and>
    path_length tsp (two_opt_move tour i j) < fst (snd st))"
  by (simp add: two_opt_body_def Let_def)

text \<open>
  What a pass keeps: the best length never grows, and when the flag is raised in the pass
  the new best length is the length of a visited candidate, strictly below the old one.
\<close>

definition sweep_inv ::
  "tsp \<Rightarrow> nat list \<Rightarrow> nat \<Rightarrow> nat list \<times> real \<times> bool \<Rightarrow> nat list \<times> real \<times> bool \<Rightarrow> bool" where
  "sweep_inv tsp tour n st st' =
     (st' = st \<or>
      (snd (snd st') \<and> fst (snd st') < fst (snd st) \<and>
       (\<exists>(i, j) \<in> two_opt_pairs n. fst st' = two_opt_move tour i j \<and>
          fst (snd st') = path_length tsp (two_opt_move tour i j))))"

lemma sweep_inv_refl: "sweep_inv tsp tour n st st"
  by (simp add: sweep_inv_def)

lemma sweep_inv_step:
  assumes "sweep_inv tsp tour n st st1" and "(i, j) \<in> two_opt_pairs n"
  shows "sweep_inv tsp tour n st (two_opt_body tsp tour dm i j st1)"
proof -
  from two_opt_body_cases [of tsp tour dm i j st1]
  show ?thesis
  proof
    assume "two_opt_body tsp tour dm i j st1 = st1"
    with assms(1) show ?thesis by simp
  next
    assume h: "two_opt_body tsp tour dm i j st1
        = (two_opt_move tour i j, path_length tsp (two_opt_move tour i j), True) \<and>
      path_length tsp (two_opt_move tour i j) < fst (snd st1)"
    have "fst (snd st1) \<le> fst (snd st)"
      using assms(1) by (auto simp: sweep_inv_def)
    with h assms(2) show ?thesis
      by (auto simp: sweep_inv_def)
  qed
qed

lemma sweep_inv_inner:
  assumes "sweep_inv tsp tour n st st1" and "1 \<le> i" and "i < n - 2"
    and "\<forall>j \<in> set js. i + 2 \<le> j \<and> j < n"
  shows "sweep_inv tsp tour n st (fold (\<lambda>j. two_opt_body tsp tour dm i j) js st1)"
  using assms
proof (induction js arbitrary: st1)
  case Nil
  then show ?case by simp
next
  case (Cons j js)
  have "(i, j) \<in> two_opt_pairs n"
    using Cons.prems by (simp add: two_opt_pairs_def)
  then have "sweep_inv tsp tour n st (two_opt_body tsp tour dm i j st1)"
    using Cons.prems(1) by (rule sweep_inv_step [rotated])
  then show ?case
    using Cons by simp
qed

lemma sweep_inv_outer:
  assumes "sweep_inv tsp tour n st st1" and "\<forall>i \<in> set is. 1 \<le> i \<and> i < n - 2"
  shows "sweep_inv tsp tour n st
     (fold (\<lambda>i. fold (\<lambda>j. two_opt_body tsp tour dm i j) [i + 2..<n]) is st1)"
  using assms
proof (induction "is" arbitrary: st1)
  case Nil
  then show ?case by simp
next
  case (Cons i "is")
  have "sweep_inv tsp tour n st (fold (\<lambda>j. two_opt_body tsp tour dm i j) [i + 2..<n] st1)"
    using Cons.prems by (intro sweep_inv_inner) auto
  then show ?case
    using Cons by simp
qed

lemma two_opt_sweep_inv: "sweep_inv tsp tour n st (two_opt_sweep tsp tour dm n st)"
  unfolding two_opt_sweep_def
  by (rule sweep_inv_outer [OF sweep_inv_refl]) auto

lemma finite_two_opt_pairs: "finite (two_opt_pairs n)"
proof (rule finite_subset)
  show "two_opt_pairs n \<subseteq> {..<n} \<times> {..<n}"
    by (auto simp: two_opt_pairs_def)
qed simp

lemma finite_two_opt_better: "finite (two_opt_better tsp tour n b)"
  by (rule finite_subset [OF _ finite_two_opt_pairs [of n]]) (auto simp: two_opt_better_def)

text \<open>
  The \<^verbatim>\<open>while improved\<close> loop: \<^verbatim>\<open>improved\<close> is True at entry, so a pass always runs;
  the loop repeats while the pass raised the flag. Every pass starts again from \<^verbatim>\<open>tour\<close>.
\<close>

function two_opt_loop ::
  "tsp \<Rightarrow> nat list \<Rightarrow> matrix \<Rightarrow> nat \<Rightarrow> nat list \<Rightarrow> real \<Rightarrow> nat list \<times> real" where
  "two_opt_loop tsp tour dist_matrix n best_tour best_length =
     (case two_opt_sweep tsp tour dist_matrix n (best_tour, best_length, False) of
        (best_tour', best_length', improved) \<Rightarrow>
          if improved then two_opt_loop tsp tour dist_matrix n best_tour' best_length'
          else (best_tour', best_length'))"
  by pat_completeness auto

lemma two_opt_sweep_decrease:
  assumes eq: "two_opt_sweep tsp tour dm n (bt, bl, False) = (bt', bl', True)"
  shows "card (two_opt_better tsp tour n bl') < card (two_opt_better tsp tour n bl)"
proof -
  from two_opt_sweep_inv [of tsp tour n "(bt, bl, False)" dm]
  obtain i j where ij: "(i, j) \<in> two_opt_pairs n"
    and len: "bl' = path_length tsp (two_opt_move tour i j)" and less: "bl' < bl"
    unfolding eq sweep_inv_def by auto
  have "(i, j) \<in> two_opt_better tsp tour n bl" "(i, j) \<notin> two_opt_better tsp tour n bl'"
    using ij len less by (auto simp: two_opt_better_def)
  moreover have "two_opt_better tsp tour n bl' \<subseteq> two_opt_better tsp tour n bl"
    using less by (auto simp: two_opt_better_def)
  ultimately have "two_opt_better tsp tour n bl' \<subset> two_opt_better tsp tour n bl"
    by blast
  then show ?thesis
    by (rule psubset_card_mono [OF finite_two_opt_better])
qed

termination two_opt_loop
proof (relation "measure (\<lambda>(tsp, tour, dm, n, bt, bl). card (two_opt_better tsp tour n bl))",
    goal_cases)
  case 1
  show ?case by simp
next
  case (2 tsp tour dm n bt bl bt' y bl' improved)
  then have "two_opt_sweep tsp tour dm n (bt, bl, False) = (bt', bl', True)"
    by (metis (full_types))
  then show ?case
    by (simp add: two_opt_sweep_decrease)
qed

text \<open>\<^verbatim>\<open>two_opt(tsp, tour, dist_matrix)\<close>; \<open>n\<close> is \<^verbatim>\<open>len(tour) - 1\<close>.\<close>

definition two_opt :: "tsp \<Rightarrow> nat list \<Rightarrow> matrix \<Rightarrow> nat list \<times> real" where
  "two_opt tsp tour dist_matrix =
     two_opt_loop tsp tour dist_matrix (length tour - 1) tour (path_length tsp tour)"

section \<open>3-opt local search\<close>

text \<open>
  Python slices with indices that are not negative: \<^verbatim>\<open>xs[a:b]\<close> and the downward
  \<^verbatim>\<open>xs[start:stop:-1]\<close>, which holds the entries at \<open>start, start - 1, ..., stop + 1\<close> and
  is empty when \<open>start \<le> stop\<close>. Both clip at the end of the list.
\<close>

definition slice :: "'a list \<Rightarrow> nat \<Rightarrow> nat \<Rightarrow> 'a list" where
  "slice xs a b = drop a (take b xs)"

definition slice_down :: "'a list \<Rightarrow> nat \<Rightarrow> nat \<Rightarrow> 'a list" where
  "slice_down xs start stop = rev (drop (stop + 1) (take (start + 1) xs))"

text \<open>
  The body of the innermost loop for one triple \<open>(i, j, k)\<close>. It reads
  \<^verbatim>\<open>tour[i-1], tour[i], tour[j-1], tour[j], tour[k-1], tour[k]\<close>; \<open>k\<close> is the largest index,
  and the read raises \<^verbatim>\<open>IndexError\<close> when the list is too short. The result is the new tour
  of the first case whose test succeeds, or \<open>None\<close> when no case applies.
\<close>

definition three_opt_try ::
  "nat list \<Rightarrow> matrix \<Rightarrow> nat \<Rightarrow> nat \<Rightarrow> nat \<Rightarrow> py_error + nat list option" where
  "three_opt_try tour dist_matrix i j k =
     (if length tour \<le> k then Inl IndexError
      else
        (let a = tour ! (i - 1); b = tour ! i;
             c = tour ! (j - 1); d = tour ! j;
             e = tour ! (k - 1); f = tour ! k;
             orig_dist = dm_at dist_matrix (a - 1) (b - 1) + dm_at dist_matrix (c - 1) (d - 1)
                       + dm_at dist_matrix (e - 1) (f - 1);
             new_dist1 = dm_at dist_matrix (a - 1) (d - 1) + dm_at dist_matrix (e - 1) (b - 1)
                       + dm_at dist_matrix (c - 1) (f - 1);
             new_dist2 = dm_at dist_matrix (a - 1) (b - 1) + dm_at dist_matrix (e - 1) (d - 1)
                       + dm_at dist_matrix (c - 1) (f - 1);
             new_dist3 = dm_at dist_matrix (a - 1) (d - 1) + dm_at dist_matrix (c - 1) (b - 1)
                       + dm_at dist_matrix (e - 1) (f - 1);
             new_dist4 = dm_at dist_matrix (a - 1) (f - 1) + dm_at dist_matrix (c - 1) (d - 1)
                       + dm_at dist_matrix (e - 1) (b - 1)
         in if new_dist1 < orig_dist then
              Inr (Some (take i tour @ slice_down tour (j - 1) (k - 1) @ slice tour i j @ drop k tour))
            else if new_dist2 < orig_dist then
              Inr (Some (take i tour @ slice tour j k @ slice tour i j @ drop k tour))
            else if new_dist3 < orig_dist then
              Inr (Some (take i tour @ slice_down tour (j - 1) (i - 1)
                         @ slice_down tour (k - 1) (j - 1) @ drop k tour))
            else if new_dist4 < orig_dist then
              Inr (Some (take i tour @ slice_down tour (k - 1) (j - 1)
                         @ slice_down tour j i @ drop k tour))
            else Inr None))"

text \<open>
  The triples in the order of
  \<^verbatim>\<open>for i in range(1, n-4): for j in range(i+2, n-2): for k in range(j+2, n)\<close>.
\<close>

definition three_opt_triples :: "nat \<Rightarrow> (nat \<times> nat \<times> nat) list" where
  "three_opt_triples n =
     concat (map (\<lambda>i. concat (map (\<lambda>j. map (\<lambda>k. (i, j, k)) [j + 2..<n]) [i + 2..<n - 2]))
       [1..<n - 4])"

text \<open>
  One pass of the three nested loops. An accepted move sets \<^verbatim>\<open>improved\<close> and breaks out of
  all three loops, so the pass ends at the first triple with a move (or at an exception).
\<close>

fun three_opt_scan ::
  "nat list \<Rightarrow> matrix \<Rightarrow> (nat \<times> nat \<times> nat) list \<Rightarrow> py_error + nat list option" where
  "three_opt_scan tour dist_matrix [] = Inr None"
| "three_opt_scan tour dist_matrix ((i, j, k) # rest) =
     (case three_opt_try tour dist_matrix i j k of
        Inl err \<Rightarrow> Inl err
      | Inr (Some new_tour) \<Rightarrow> Inr (Some new_tour)
      | Inr None \<Rightarrow> three_opt_scan tour dist_matrix rest)"

text \<open>
  The \<^verbatim>\<open>while improved\<close> loop. After a pass with a move, \<^verbatim>\<open>best_tour\<close> is the new tour,
  \<^verbatim>\<open>best_length\<close> its \<^verbatim>\<open>path_length\<close>, and \<^verbatim>\<open>tour\<close> a copy of \<^verbatim>\<open>best_tour\<close>; \<open>n\<close> stays
  what it was at entry. The loop may run forever: the result \<open>None\<close> stands for that.
\<close>

partial_function (option) three_opt_loop ::
  "tsp \<Rightarrow> matrix \<Rightarrow> nat \<Rightarrow> nat list \<Rightarrow> nat list \<Rightarrow> real \<Rightarrow> (py_error + nat list \<times> real) option" where
  "three_opt_loop tsp dist_matrix n tour best_tour best_length =
     (case three_opt_scan tour dist_matrix (three_opt_triples n) of
        Inl err \<Rightarrow> Some (Inl err)
      | Inr None \<Rightarrow> Some (Inr (best_tour, best_length))
      | Inr (Some new_tour) \<Rightarrow>
          three_opt_loop tsp dist_matrix n new_tour new_tour (path_length tsp new_tour))"

definition three_opt :: "tsp \<Rightarrow> nat list \<Rightarrow> matrix \<Rightarrow> (py_error + nat list \<times> real) option" where
  "three_opt tsp tour dist_matrix =
     three_opt_loop tsp dist_matrix (length tour - 1) tour tour (path_length tsp tour)"

section \<open>FuzzOpt\<close>

text \<open>
  Randomness is an input of the model: \<open>perm\<close> is the list that
  \<^verbatim>\<open>np.random.permutation(list(range(2, n+1)))\<close> returns, and \<open>draws\<close> is an unbounded
  sequence of raw random numbers, read at a position that moves by one with each call of
  \<^verbatim>\<open>randint\<close>. \<^verbatim>\<open>randint(a, b)\<close> raises \<^verbatim>\<open>ValueError\<close> on an empty range and returns a
  number of \<open>a..b\<close> otherwise.
\<close>

definition randint :: "(nat \<Rightarrow> nat) \<Rightarrow> nat \<Rightarrow> nat \<Rightarrow> nat \<Rightarrow> py_error + nat" where
  "randint draws p a b = (if b < a then Inl ValueError else Inr (a + draws p mod (b - a + 1)))"

text \<open>
  \<^verbatim>\<open>while u == v: v = randint(1, n-1)\<close>, returning \<open>v\<close> and the next position. The loop
  runs for as long as the draws repeat \<open>u\<close>.
\<close>

partial_function (option) redraw ::
  "(nat \<Rightarrow> nat) \<Rightarrow> nat \<Rightarrow> nat \<Rightarrow> nat \<Rightarrow> nat \<Rightarrow> (py_error + nat \<times> nat) option" where
  "redraw draws n u v p =
     (if u = v then
        (case randint draws p 1 (n - 1) of
           Inl err \<Rightarrow> Some (Inl err)
         | Inr v' \<Rightarrow> redraw draws n u v' (p + 1))
      else Some (Inr (v, p)))"

text \<open>\<^verbatim>\<open>local_search = three_opt if use_three_opt else two_opt\<close>.\<close>

definition local_search ::
  "bool \<Rightarrow> tsp \<Rightarrow> nat list \<Rightarrow> matrix \<Rightarrow> (py_error + nat list \<times> real) option" where
  "local_search use_three_opt tsp tour dist_matrix =
     (if use_three_opt then three_opt tsp tour dist_matrix
      else Some (Inr (two_opt tsp tour dist_matrix)))"

text \<open>
  The body of the \<^verbatim>\<open>for iteration in range(max_iterations)\<close> loop, on the state
  \<open>(x, fx)\<close> and the position \<open>p\<close> in the draws: two draws, the redraw loop, the swap
  \<^verbatim>\<open>xn[u], xn[v] = xn[v], xn[u]\<close> on a copy of \<open>x\<close> (an \<^verbatim>\<open>IndexError\<close> on an index beyond
  the list), the local search, and the acceptance test \<^verbatim>\<open>if fn < fx\<close>.
\<close>

definition fuzzopt_body ::
  "tsp \<Rightarrow> matrix \<Rightarrow> bool \<Rightarrow> (nat \<Rightarrow> nat) \<Rightarrow> nat \<Rightarrow> nat list \<Rightarrow> real \<Rightarrow> nat
     \<Rightarrow> (py_error + nat list \<times> real \<times> nat) option" where
  "fuzzopt_body tsp dm use_three_opt draws n x fx p =
     (case randint draws p 1 (n - 1) of
        Inl err \<Rightarrow> Some (Inl err)
      | Inr u \<Rightarrow>
     (case randint draws (p + 1) 1 (n - 1) of
        Inl err \<Rightarrow> Some (Inl err)
      | Inr v0 \<Rightarrow>
     (case redraw draws n u v0 (p + 2) of
        None \<Rightarrow> None
      | Some (Inl err) \<Rightarrow> Some (Inl err)
      | Some (Inr (v, p')) \<Rightarrow>
          if length x \<le> u \<or> length x \<le> v then Some (Inl IndexError)
          else
            (case local_search use_three_opt tsp (x[u := x ! v, v := x ! u]) dm of
               None \<Rightarrow> None
             | Some (Inl err) \<Rightarrow> Some (Inl err)
             | Some (Inr (xn, fn)) \<Rightarrow>
                 if fn < fx then Some (Inr (xn, fn, p')) else Some (Inr (x, fx, p'))))))"

text \<open>The \<^verbatim>\<open>for\<close> loop, by the number of iterations left; it returns \<^verbatim>\<open>(fx, x)\<close>.\<close>

fun fuzzopt_loop ::
  "nat \<Rightarrow> tsp \<Rightarrow> matrix \<Rightarrow> bool \<Rightarrow> (nat \<Rightarrow> nat) \<Rightarrow> nat \<Rightarrow> nat list \<Rightarrow> real \<Rightarrow> nat
     \<Rightarrow> (py_error + real \<times> nat list) option" where
  "fuzzopt_loop 0 tsp dm use_three_opt draws n x fx p = Some (Inr (fx, x))"
| "fuzzopt_loop (Suc iterations) tsp dm use_three_opt draws n x fx p =
     (case fuzzopt_body tsp dm use_three_opt draws n x fx p of
        None \<Rightarrow> None
      | Some (Inl err) \<Rightarrow> Some (Inl err)
      | Some (Inr (x', fx', p')) \<Rightarrow>
          fuzzopt_loop iterations tsp dm use_three_opt draws n x' fx' p')"

text \<open>
  \<^verbatim>\<open>fuzzopt(tsp, max_iterations, use_three_opt)\<close>. The matrix holds \<^verbatim>\<open>dist(i, j)\<close> at row
  \<open>i - 1\<close> and column \<open>j - 1\<close>; \<^verbatim>\<open>max_iterations or n\<close> is \<open>n\<close> for \<^verbatim>\<open>None\<close> and for 0.
\<close>

definition distance_matrix :: "tsp \<Rightarrow> matrix" where
  "distance_matrix tsp =
     map (\<lambda>i. map (\<lambda>j. dist_of tsp i j) [1..<DIMENSION tsp + 1]) [1..<DIMENSION tsp + 1]"

definition fuzzopt ::
  "tsp \<Rightarrow> nat option \<Rightarrow> bool \<Rightarrow> nat list \<Rightarrow> (nat \<Rightarrow> nat) \<Rightarrow> (py_error + real \<times> nat list) option" where
  "fuzzopt tsp max_iterations use_three_opt perm draws =
     (let n = DIMENSION tsp;
          x = [1] @ perm @ [1];
          fx = path_length tsp x;
          max_iterations' = (case max_iterations of None \<Rightarrow> n | Some m \<Rightarrow> if m = 0 then n else m)
      in fuzzopt_loop max_iterations' tsp (distance_matrix tsp) use_three_opt draws n x fx 0)"

section \<open>Concrete instances\<close>

text \<open>
  Six cities on a line, city \<open>k\<close> at \<open>x = k - 1\<close>, and the same six points with the first
  three in another order. The Euclidean distance of two points of the line is the absolute
  difference of their abscissas.
\<close>

definition line6 :: tsp where
  "line6 = \<lparr>DIMENSION = 6, CITIES = [(0, 0), (1, 0), (2, 0), (3, 0), (4, 0), (5, 0)]\<rparr>"

definition line6b :: tsp where
  "line6b = \<lparr>DIMENSION = 6, CITIES = [(2, 0), (0, 0), (1, 0), (3, 0), (4, 0), (5, 0)]\<rparr>"

lemma distance_line: "distance (a, 0) (b, 0) = \<bar>a - b\<bar>"
  by (simp add: distance_def)

lemma Suc_Suc_0: "Suc (Suc 0) = 2"
  by simp

lemmas evals = Suc_Suc_0 upt_conv_Cons distance_line Let_def

lemma distance_matrix_line6:
  "distance_matrix line6 =
     [[0, 1, 2, 3, 4, 5], [1, 0, 1, 2, 3, 4], [2, 1, 0, 1, 2, 3],
      [3, 2, 1, 0, 1, 2], [4, 3, 2, 1, 0, 1], [5, 4, 3, 2, 1, 0]]"
  by (simp add: distance_matrix_def line6_def dist_of_def evals)

lemma distance_matrix_line6b:
  "distance_matrix line6b =
     [[0, 2, 1, 1, 2, 3], [2, 0, 1, 3, 4, 5], [1, 1, 0, 2, 3, 4],
      [1, 3, 2, 0, 1, 2], [2, 4, 3, 1, 0, 1], [3, 5, 4, 2, 1, 0]]"
  by (simp add: distance_matrix_def line6b_def dist_of_def evals)

lemma atLeastAtMost_1_6: "{1..6::nat} = {1, 2, 3, 4, 5, 6}"
  by auto

lemma three_opt_triples_6: "three_opt_triples 6 = [(1, 3, 5)]"
  by (simp add: three_opt_triples_def evals)

section \<open>Claims on the local searches\<close>

text \<open>
  C5. The claim: \<^verbatim>\<open>two_opt\<close> applies the first improving move, restarts the sweep from the
  updated tour, and returns a tour that no single reversal of a sub-segment shortens.
  On the six cities of the line and the tour \<open>[1, 3, 4, 5, 2, 6, 1]\<close> of length 16 the
  function returns \<open>[1, 2, 5, 4, 3, 6, 1]\<close> of length 14, a candidate of the input tour.
  No sweep starts from that tour: reversing its positions 2 to 4, a pair the sweep visits,
  gives \<open>[1, 2, 3, 4, 5, 6, 1]\<close> of length 10.
\<close>

theorem two_opt_not_locally_optimal:
  "two_opt line6 [1, 3, 4, 5, 2, 6, 1] (distance_matrix line6) = ([1, 2, 5, 4, 3, 6, 1], 14) \<and>
   path_length line6 [1, 3, 4, 5, 2, 6, 1] = 16 \<and>
   (2, 4) \<in> two_opt_pairs 6 \<and>
   two_opt_move [1, 2, 5, 4, 3, 6, 1] 2 4 = [1, 2, 3, 4, 5, 6, 1] \<and>
   path_length line6 [1, 2, 3, 4, 5, 6, 1] = 10"
proof (intro conjI)
  show "two_opt line6 [1, 3, 4, 5, 2, 6, 1] (distance_matrix line6)
      = ([1, 2, 5, 4, 3, 6, 1], 14)"
    unfolding distance_matrix_line6
    by (simp add: two_opt_def two_opt_sweep_def two_opt_body_def two_opt_move_def dm_at_def
        path_length_def line6_def evals)
  show "path_length line6 [1, 3, 4, 5, 2, 6, 1] = 16"
    by (simp add: path_length_def line6_def evals)
  show "(2, 4) \<in> two_opt_pairs 6"
    by (simp add: two_opt_pairs_def)
  show "two_opt_move [1, 2, 5, 4, 3, 6, 1] 2 4 = [1, 2, 3, 4, 5, 6, 1]"
    by (simp add: two_opt_move_def)
  show "path_length line6 [1, 2, 3, 4, 5, 6, 1] = 10"
    by (simp add: path_length_def line6_def evals)
qed

text \<open>
  C4. The claim: the length returned by \<^verbatim>\<open>two_opt\<close> and by \<^verbatim>\<open>three_opt\<close> is at most the
  length of the input tour. On the six cities of the line \<^verbatim>\<open>three_opt\<close> turns the valid
  tour \<open>[1, 3, 4, 2, 5, 6, 1]\<close> of length 14 into \<open>[1, 4, 3, 5, 2, 6, 1]\<close> of length 18.
\<close>

theorem three_opt_length_grows:
  "three_opt line6 [1, 3, 4, 2, 5, 6, 1] (distance_matrix line6)
     = Some (Inr ([1, 4, 3, 5, 2, 6, 1], 18)) \<and>
   path_length line6 [1, 3, 4, 2, 5, 6, 1] = 14 \<and>
   valid_tour 6 [1, 3, 4, 2, 5, 6, 1]"
proof (intro conjI)
  show "three_opt line6 [1, 3, 4, 2, 5, 6, 1] (distance_matrix line6)
      = Some (Inr ([1, 4, 3, 5, 2, 6, 1], 18))"
    unfolding distance_matrix_line6
    by (simp add: three_opt_def three_opt_loop.simps three_opt_triples_6 three_opt_try_def
        slice_def slice_down_def dm_at_def path_length_def line6_def evals)
  show "path_length line6 [1, 3, 4, 2, 5, 6, 1] = 14"
    by (simp add: path_length_def line6_def evals)
  show "valid_tour 6 [1, 3, 4, 2, 5, 6, 1]"
    unfolding valid_tour_def atLeastAtMost_1_6 by auto
qed

text \<open>
  C1. The claim: every solver returns a valid tour, and \<^verbatim>\<open>two_opt\<close> and \<^verbatim>\<open>three_opt\<close> keep
  a valid tour valid after every accepted move. On the second instance \<^verbatim>\<open>three_opt\<close>
  takes the valid tour \<open>[1, 2, 5, 6, 3, 4, 1]\<close>, accepts one move of its fourth case and
  returns \<open>[1, 3, 6, 6, 5, 4, 1]\<close>, where city 6 stands twice and city 2 is missing.
\<close>

theorem three_opt_breaks_permutation:
  "three_opt line6b [1, 2, 5, 6, 3, 4, 1] (distance_matrix line6b)
     = Some (Inr ([1, 3, 6, 6, 5, 4, 1], 8)) \<and>
   valid_tour 6 [1, 2, 5, 6, 3, 4, 1] \<and>
   \<not> valid_tour 6 [1, 3, 6, 6, 5, 4, 1]"
proof (intro conjI)
  show "three_opt line6b [1, 2, 5, 6, 3, 4, 1] (distance_matrix line6b)
      = Some (Inr ([1, 3, 6, 6, 5, 4, 1], 8))"
    unfolding distance_matrix_line6b
    by (simp add: three_opt_def three_opt_loop.simps three_opt_triples_6 three_opt_try_def
        slice_def slice_down_def dm_at_def path_length_def line6b_def evals)
  show "valid_tour 6 [1, 2, 5, 6, 3, 4, 1]"
    unfolding valid_tour_def atLeastAtMost_1_6 by auto
  show "\<not> valid_tour 6 [1, 3, 6, 6, 5, 4, 1]"
    unfolding valid_tour_def by simp
qed

section \<open>Loops that do not end\<close>

text \<open>
  A pass of \<^verbatim>\<open>three_opt\<close> that maps a tour to itself repeats forever, and so does the redraw
  loop of \<^verbatim>\<open>fuzzopt\<close> for two cities, where \<^verbatim>\<open>randint(1, 1)\<close> can only return 1.
\<close>

lemma three_opt_loop_stuck:
  assumes "three_opt_scan t dm (three_opt_triples n) = Inr (Some t)"
  shows "three_opt_loop tsp dm n t t (path_length tsp t) = None"
proof (rule ccontr)
  assume "three_opt_loop tsp dm n t t (path_length tsp t) \<noteq> None"
  then obtain y where y: "three_opt_loop tsp dm n t t (path_length tsp t) = Some y"
    by auto
  have key: "\<not> (tsp' = tsp \<and> dm' = dm \<and> n' = n \<and> tour = t \<and> bt = t \<and> bl = path_length tsp t)"
    if h: "three_opt_loop tsp' dm' n' tour bt bl = Some y'" for tsp' dm' n' tour bt bl y'
  proof (rule three_opt_loop.raw_induct [where P = "\<lambda>tsp' dm' n' tour bt bl y'.
      \<not> (tsp' = tsp \<and> dm' = dm \<and> n' = n \<and> tour = t \<and> bt = t \<and> bl = path_length tsp t)", OF _ h],
      goal_cases)
    case (1 loop tsp' dm' n' tour bt bl y')
    show ?case
    proof
      assume eq: "tsp' = tsp \<and> dm' = dm \<and> n' = n \<and> tour = t \<and> bt = t \<and> bl = path_length tsp t"
      with 1(2) assms have "loop tsp dm n t t (path_length tsp t) = Some y'"
        by simp
      with 1(1) [of tsp dm n t t "path_length tsp t" y'] show False by simp
    qed
  qed
  from key [of tsp dm n t t "path_length tsp t" y, OF y] show False by simp
qed

lemma redraw_stuck: "redraw draws 2 (Suc 0) (Suc 0) p = None"
proof (rule ccontr)
  assume "redraw draws 2 (Suc 0) (Suc 0) p \<noteq> None"
  then obtain y where y: "redraw draws 2 (Suc 0) (Suc 0) p = Some y"
    by auto
  have key: "\<not> (n = 2 \<and> u = 1 \<and> v = 1)"
    if h: "redraw draws' n u v p' = Some y'" for draws' n u v p' y'
  proof (rule redraw.raw_induct [where P = "\<lambda>draws' n u v p' y'. \<not> (n = 2 \<and> u = 1 \<and> v = 1)", OF _ h],
      goal_cases)
    case (1 loop draws' n u v p' y')
    show ?case
    proof
      assume eq: "n = 2 \<and> u = 1 \<and> v = 1"
      with 1(2) have "loop draws' 2 1 1 (p' + 1) = Some y'"
        by (simp add: randint_def)
      with 1(1) [of draws' 2 1 1 "p' + 1" y'] show False by simp
    qed
  qed
  from key [of draws 2 "Suc 0" "Suc 0" p y, OF y] show False by simp
qed

definition two_cities :: tsp where
  "two_cities = \<lparr>DIMENSION = 2, CITIES = [(0, 0), (1, 0)]\<rparr>"

definition line4 :: tsp where
  "line4 = \<lparr>DIMENSION = 4, CITIES = [(0, 0), (2, 0), (1, 0), (3, 0)]\<rparr>"


lemma three_opt_line6_diverges:
  "three_opt line6 [1, 3, 5, 6, 4, 2, 1] (distance_matrix line6) = None"
proof -
  let ?dm = "distance_matrix line6"
  have s1: "three_opt_scan [1, 3, 5, 6, 4, 2, 1] ?dm (three_opt_triples 6)
        = Inr (Some [1, 4, 6, 6, 5, 2, 1])"
    and s2: "three_opt_scan [1, 4, 6, 6, 5, 2, 1] ?dm (three_opt_triples 6)
        = Inr (Some [1, 5, 6, 6, 6, 2, 1])"
    and s3: "three_opt_scan [1, 5, 6, 6, 6, 2, 1] ?dm (three_opt_triples 6)
        = Inr (Some [1, 6, 6, 6, 6, 2, 1])"
    and s4: "three_opt_scan [1, 6, 6, 6, 6, 2, 1] ?dm (three_opt_triples 6)
        = Inr (Some [1, 6, 6, 6, 6, 2, 1])"
    unfolding distance_matrix_line6 three_opt_triples_6
    by (simp_all add: three_opt_try_def slice_def slice_down_def dm_at_def evals)
  have "three_opt line6 [1, 3, 5, 6, 4, 2, 1] ?dm
      = three_opt_loop line6 ?dm 6 [1, 3, 5, 6, 4, 2, 1] [1, 3, 5, 6, 4, 2, 1]
          (path_length line6 [1, 3, 5, 6, 4, 2, 1])"
    by (simp add: three_opt_def evals)
  also have "\<dots> = three_opt_loop line6 ?dm 6 [1, 4, 6, 6, 5, 2, 1] [1, 4, 6, 6, 5, 2, 1]
          (path_length line6 [1, 4, 6, 6, 5, 2, 1])"
    by (subst three_opt_loop.simps) (simp only: s1 sum.case option.case)
  also have "\<dots> = three_opt_loop line6 ?dm 6 [1, 5, 6, 6, 6, 2, 1] [1, 5, 6, 6, 6, 2, 1]
          (path_length line6 [1, 5, 6, 6, 6, 2, 1])"
    by (subst three_opt_loop.simps) (simp only: s2 sum.case option.case)
  also have "\<dots> = three_opt_loop line6 ?dm 6 [1, 6, 6, 6, 6, 2, 1] [1, 6, 6, 6, 6, 2, 1]
          (path_length line6 [1, 6, 6, 6, 6, 2, 1])"
    by (subst three_opt_loop.simps) (simp only: s3 sum.case option.case)
  also have "\<dots> = None"
    by (rule three_opt_loop_stuck) (rule s4)
  finally show ?thesis .
qed
lemma fuzzopt_two_cities_diverges:
  "fuzzopt two_cities max_iterations use_three_opt perm draws = None"
proof -
  have "fuzzopt_loop (Suc k) two_cities dm use_three_opt draws 2 x fx 0 = None" for k dm x fx
    by (simp add: fuzzopt_body_def randint_def redraw_stuck)
  moreover have "\<exists>k. (case max_iterations of None \<Rightarrow> 2 | Some m \<Rightarrow> if m = 0 then 2 else m) = Suc k"
    by (cases max_iterations) (auto simp: gr0_conv_Suc)
  ultimately show ?thesis
    by (auto simp: fuzzopt_def two_cities_def Let_def)
qed

text \<open>
  C7. The claim: for every valid instance the loops of \<^verbatim>\<open>two_opt\<close> and \<^verbatim>\<open>three_opt\<close> end,
  and \<^verbatim>\<open>fuzzopt\<close> ends after its iteration budget. The loop of \<^verbatim>\<open>two_opt\<close> ends (its
  model is a total function). On the six cities of the line and the valid tour
  \<open>[1, 3, 5, 6, 4, 2, 1]\<close>, \<^verbatim>\<open>three_opt\<close> reaches \<open>[1, 6, 6, 6, 6, 2, 1]\<close> after three moves of
  its fourth case and then accepts the same move for ever. On every instance with two
  cities \<^verbatim>\<open>fuzzopt\<close> draws \<open>u = v = 1\<close> and never leaves \<^verbatim>\<open>while u == v\<close>, whatever the
  draws, the budget and the local search.
\<close>

theorem local_search_loops_forever:
  "three_opt line6 [1, 3, 5, 6, 4, 2, 1] (distance_matrix line6) = None \<and>
   valid_tour 6 [1, 3, 5, 6, 4, 2, 1] \<and>
   fuzzopt two_cities max_iterations use_three_opt [2] draws = None"
proof (intro conjI)
  show "valid_tour 6 [1, 3, 5, 6, 4, 2, 1]"
    unfolding valid_tour_def atLeastAtMost_1_6 by auto
qed (rule three_opt_line6_diverges fuzzopt_two_cities_diverges)+

section \<open>FuzzOpt never regresses\<close>

lemma fuzzopt_body_result:
  "fuzzopt_body tsp dm use3 draws n x fx p = Some (Inr (x', fx', p'))
     \<Longrightarrow> (fx' = fx \<and> x' = x) \<or> fx' < fx"
  unfolding fuzzopt_body_def
  by (auto split: sum.splits option.splits if_splits prod.splits)

lemma fuzzopt_loop_result:
  "fuzzopt_loop k tsp dm use3 draws n x fx p = Some (Inr (fx', x'))
     \<Longrightarrow> (fx' = fx \<and> x' = x) \<or> fx' < fx"
proof (induction k arbitrary: x fx p)
  case 0
  then show ?case by simp
next
  case (Suc k)
  from Suc.prems obtain xn fn p' where
    b: "fuzzopt_body tsp dm use3 draws n x fx p = Some (Inr (xn, fn, p'))"
    and l: "fuzzopt_loop k tsp dm use3 draws n xn fn p' = Some (Inr (fx', x'))"
    by (auto split: sum.splits option.splits prod.splits)
  from fuzzopt_body_result [OF b] Suc.IH [OF l] show ?case
    by auto
qed


text \<open>
  C9. Whenever \<^verbatim>\<open>fuzzopt\<close> returns, for any instance, any initial permutation and any
  sequence of draws, the returned length is at most the length of the initial tour
  \<open>[1] @ perm @ [1]\<close>; the incumbent changes only on a strict improvement, so the result is
  the initial tour or strictly shorter.
\<close>

theorem fuzzopt_never_regresses:
  assumes "fuzzopt tsp max_iterations use_three_opt perm draws = Some (Inr (fx, x))"
  shows "fx \<le> path_length tsp ([1] @ perm @ [1]) \<and>
    (x = [1] @ perm @ [1] \<or> fx < path_length tsp ([1] @ perm @ [1]))"
  using fuzzopt_loop_result [OF assms [unfolded fuzzopt_def Let_def]]
  by auto

text \<open>
  A run that returns: four cities on a line at \<open>x = 0, 2, 1, 3\<close>, the initial tour
  \<open>[1, 2, 3, 4, 1]\<close> of length 8, the draws \<open>0, 1, 2, ...\<close> and 2-opt. The first iteration
  swaps positions 1 and 2 and is accepted with length 6; the other three are rejected.
\<close>

lemma distance_matrix_line4:
  "distance_matrix line4 = [[0, 2, 1, 3], [2, 0, 1, 1], [1, 1, 0, 2], [3, 1, 2, 0]]"
  by (simp add: distance_matrix_def line4_def dist_of_def evals)

lemmas fuzzopt_evals = fuzzopt_body_def local_search_def two_opt_def
  two_opt_loop.simps two_opt_sweep_def two_opt_body_def two_opt_move_def dm_at_def
  randint_def redraw.simps path_length_def line4_def evals

lemma fuzzopt_loop_4:
  "fuzzopt_loop 4 tsp dm use3 draws n x fx p
     = fuzzopt_loop (Suc (Suc (Suc (Suc 0)))) tsp dm use3 draws n x fx p"
  by (simp add: numeral_eq_Suc)

lemma fuzzopt_line4:
  "fuzzopt line4 None False [2, 3, 4] (\<lambda>p. p) = Some (Inr (6, [1, 3, 2, 4, 1]))"
proof -
  let ?dm = "[[0, 2, 1, 3], [2, 0, 1, 1], [1, 1, 0, 2], [3, 1, 2, 0]] :: matrix"
  have b1: "fuzzopt_body line4 ?dm False (\<lambda>p. p) 4 [1, 2, 3, 4, 1] 8 0
      = Some (Inr ([1, 3, 2, 4, 1], 6, 2))"
    by (simp add: fuzzopt_evals)
  have b2: "fuzzopt_body line4 ?dm False (\<lambda>p. p) 4 [1, 3, 2, 4, 1] 6 2
      = Some (Inr ([1, 3, 2, 4, 1], 6, 4))"
    by (simp add: fuzzopt_evals)
  have b3: "fuzzopt_body line4 ?dm False (\<lambda>p. p) 4 [1, 3, 2, 4, 1] 6 4
      = Some (Inr ([1, 3, 2, 4, 1], 6, 6))"
    by (simp add: fuzzopt_evals)
  have b4: "fuzzopt_body line4 ?dm False (\<lambda>p. p) 4 [1, 3, 2, 4, 1] 6 6
      = Some (Inr ([1, 3, 2, 4, 1], 6, 8))"
    by (simp add: fuzzopt_evals)
  have loop: "fuzzopt_loop 4 line4 ?dm False (\<lambda>p. p) 4 [1, 2, 3, 4, 1] 8 0
      = Some (Inr (6, [1, 3, 2, 4, 1]))"
    by (subst fuzzopt_loop_4)
      (simp only: fuzzopt_loop.simps b1 b2 b3 b4 option.case sum.case prod.case)
  have pl: "path_length line4 [1, 2, 3, 4, 1] = 8"
    by (simp add: path_length_def line4_def evals)
  have n: "DIMENSION line4 = 4"
    by (simp add: line4_def)
  show ?thesis
    unfolding fuzzopt_def distance_matrix_line4
    by (simp only: Let_def n option.case append.simps pl loop)
qed

theorem fuzzopt_never_regresses_witness:
  "fuzzopt line4 None False [2, 3, 4] (\<lambda>p. p) = Some (Inr (6, [1, 3, 2, 4, 1])) \<and>
   path_length line4 ([1] @ [2, 3, 4] @ [1]) = 8 \<and>
   (6::real) \<le> path_length line4 ([1] @ [2, 3, 4] @ [1])"
  using fuzzopt_never_regresses [OF fuzzopt_line4] fuzzopt_line4
  by (simp add: path_length_def line4_def evals)

end
